theory Spec2Isabelle
  imports Main
begin

section \<open>Strings\<close>

text \<open>
  Python strings are modelled as \<open>string\<close>. The case conversions \<open>str.lower\<close> and
  \<open>str.upper\<close> are modelled on the ASCII letters; every other character is left as it
  is. Python's case mapping of characters beyond ASCII is not part of the model. All
  keywords, column names and filter values in the source are ASCII.
\<close>

definition upper_letters :: string where
  "upper_letters = ''ABCDEFGHIJKLMNOPQRSTUVWXYZ''"

definition lower_letters :: string where
  "lower_letters = ''abcdefghijklmnopqrstuvwxyz''"

definition lower_char :: "char \<Rightarrow> char" where
  "lower_char c = (case map_of (zip upper_letters lower_letters) c of Some d \<Rightarrow> d | None \<Rightarrow> c)"

definition upper_char :: "char \<Rightarrow> char" where
  "upper_char c = (case map_of (zip lower_letters upper_letters) c of Some d \<Rightarrow> d | None \<Rightarrow> c)"

text \<open>\<open>s.lower()\<close> and \<open>s.upper()\<close>.\<close>

definition lower :: "string \<Rightarrow> string" where
  "lower s = map lower_char s"

definition upper :: "string \<Rightarrow> string" where
  "upper s = map upper_char s"

text \<open>\<open>s.startswith(p)\<close>, used to define the substring test.\<close>

fun startswith :: "string \<Rightarrow> string \<Rightarrow> bool" where
  "startswith s [] = True"
| "startswith [] (p # ps) = False"
| "startswith (c # cs) (p # ps) = (c = p \<and> startswith cs ps)"

text \<open>The substring test \<open>sub in s\<close>.\<close>

fun is_in :: "string \<Rightarrow> string \<Rightarrow> bool" where
  "is_in sub [] = (sub = [])"
| "is_in sub (c # cs) = (startswith (c # cs) sub \<or> is_in sub cs)"

text \<open>\<open>any(word in s for word in words)\<close>.\<close>

definition any_in :: "string list \<Rightarrow> string \<Rightarrow> bool" where
  "any_in words s = list_ex (\<lambda>word. is_in word s) words"


section \<open>The rule-based resolver: \<open>_mock_llm_response\<close>\<close>

text \<open>The dictionary \<open>{"target_column": c, "filter_value": v}\<close> that the resolver returns.\<close>

record llm_output =
  target_column :: string
  filter_value :: string

text \<open>
  Each block of the function either returns or falls through to the next block; a
  block is a function to \<open>llm_output option\<close>, where \<open>None\<close> is falling through.
\<close>

text \<open>Severity/Intensity mapping.\<close>

definition severity_mapping :: "string \<Rightarrow> llm_output option" where
  "severity_mapping question_lower =
    (if any_in [''severity'', ''severe'', ''intensity'', ''intense''] question_lower then
       (if is_in ''mild'' question_lower then
          Some \<lparr>target_column = ''AESEV'', filter_value = ''MILD''\<rparr>
        else if is_in ''moderate'' question_lower then
          Some \<lparr>target_column = ''AESEV'', filter_value = ''MODERATE''\<rparr>
        else if is_in ''severe'' question_lower then
          Some \<lparr>target_column = ''AESEV'', filter_value = ''SEVERE''\<rparr>
        else None)
     else None)"

text \<open>Body system mapping.\<close>

definition body_system_mapping :: "string \<Rightarrow> llm_output option" where
  "body_system_mapping question_lower =
    (if any_in [''cardiac'', ''heart'', ''cardiovascular''] question_lower then
       Some \<lparr>target_column = ''AESOC'', filter_value = ''CARDIAC DISORDERS''\<rparr>
     else if any_in [''skin'', ''dermal'', ''dermatologic''] question_lower then
       Some \<lparr>target_column = ''AESOC'',
             filter_value = ''SKIN AND SUBCUTANEOUS TISSUE DISORDERS''\<rparr>
     else if any_in [''gastrointestinal'', ''digestive'', ''gi'', ''stomach''] question_lower then
       Some \<lparr>target_column = ''AESOC'', filter_value = ''GASTROINTESTINAL DISORDERS''\<rparr>
     else if any_in [''infection'', ''infectious''] question_lower then
       Some \<lparr>target_column = ''AESOC'', filter_value = ''INFECTIONS AND INFESTATIONS''\<rparr>
     else if any_in [''general disorder'', ''administration site''] question_lower then
       Some \<lparr>target_column = ''AESOC'',
             filter_value = ''GENERAL DISORDERS AND ADMINISTRATION SITE CONDITIONS''\<rparr>
     else None)"

text \<open>
  Specific condition mapping (AETERM). The dictionary \<open>conditions\<close> is iterated in
  insertion order, so it is an association list.
\<close>

definition conditions :: "(string \<times> string) list" where
  "conditions =
    [(''erythema'', ''ERYTHEMA''),
     (''diarrhea'', ''DIARRHOEA''),
     (''diarrhoea'', ''DIARRHOEA''),
     (''fatigue'', ''FATIGUE''),
     (''pruritus'', ''APPLICATION SITE PRURITUS''),
     (''itching'', ''APPLICATION SITE PRURITUS''),
     (''headache'', ''HEADACHE''),
     (''nausea'', ''NAUSEA''),
     (''hiatus hernia'', ''HIATUS HERNIA''),
     (''bundle branch block'', ''BUNDLE BRANCH BLOCK LEFT''),
     (''respiratory infection'', ''UPPER RESPIRATORY TRACT INFECTION'')]"

fun condition_loop :: "(string \<times> string) list \<Rightarrow> string \<Rightarrow> llm_output option" where
  "condition_loop [] question_lower = None"
| "condition_loop ((condition_key, condition_value) # items) question_lower =
    (if is_in condition_key question_lower then
       Some \<lparr>target_column = ''AETERM'', filter_value = condition_value\<rparr>
     else condition_loop items question_lower)"

definition condition_mapping :: "string \<Rightarrow> llm_output option" where
  "condition_mapping question_lower = condition_loop conditions question_lower"

text \<open>Serious event mapping.\<close>

definition serious_mapping :: "string \<Rightarrow> llm_output option" where
  "serious_mapping question_lower =
    (if is_in ''serious'' question_lower then
       (let v = (if is_in ''yes'' question_lower \<or> is_in ''serious'' question_lower
                 then ''Y'' else ''N'')
        in Some \<lparr>target_column = ''AESER'', filter_value = v\<rparr>)
     else None)"

text \<open>Relationship mapping.\<close>

definition relationship_mapping :: "string \<Rightarrow> llm_output option" where
  "relationship_mapping question_lower =
    (if is_in ''relationship'' question_lower \<or> is_in ''related'' question_lower then
       (if is_in ''probable'' question_lower then
          Some \<lparr>target_column = ''AEREL'', filter_value = ''PROBABLE''\<rparr>
        else if is_in ''possible'' question_lower then
          Some \<lparr>target_column = ''AEREL'', filter_value = ''POSSIBLE''\<rparr>
        else if is_in ''remote'' question_lower then
          Some \<lparr>target_column = ''AEREL'', filter_value = ''REMOTE''\<rparr>
        else if is_in ''none'' question_lower then
          Some \<lparr>target_column = ''AEREL'', filter_value = ''NONE''\<rparr>
        else None)
     else None)"

text \<open>Outcome mapping.\<close>

definition outcome_mapping :: "string \<Rightarrow> llm_output option" where
  "outcome_mapping question_lower =
    (if is_in ''outcome'' question_lower \<or> is_in ''resolved'' question_lower
        \<or> is_in ''recovered'' question_lower then
       (if is_in ''not'' question_lower then
          Some \<lparr>target_column = ''AEOUT'', filter_value = ''NOT RECOVERED/NOT RESOLVED''\<rparr>
        else
          Some \<lparr>target_column = ''AEOUT'', filter_value = ''RECOVERED/RESOLVED''\<rparr>)
     else None)"

text \<open>The whole function: the blocks in the order of the source, then the default.\<close>

definition mock_llm_response :: "string \<Rightarrow> llm_output" where
  "mock_llm_response question =
    (let question_lower = lower question in
     case severity_mapping question_lower of Some r \<Rightarrow> r | None \<Rightarrow>
     (case body_system_mapping question_lower of Some r \<Rightarrow> r | None \<Rightarrow>
     (case condition_mapping question_lower of Some r \<Rightarrow> r | None \<Rightarrow>
     (case serious_mapping question_lower of Some r \<Rightarrow> r | None \<Rightarrow>
     (case relationship_mapping question_lower of Some r \<Rightarrow> r | None \<Rightarrow>
     (case outcome_mapping question_lower of Some r \<Rightarrow> r | None \<Rightarrow>
        \<lparr>target_column = ''AESEV'', filter_value = ''MILD''\<rparr>))))))"


section \<open>The dataset\<close>

text \<open>
  The data frame \<open>self.df\<close> as it is after loading: the column labels in order, each
  with the dtype of its column, and the rows. A cell is a string, a number, or missing
  (NaN). A column of object dtype holds strings and missing cells; a column of a
  numeric dtype holds numbers and missing cells. The dtype of a column is stored in the
  frame; the loader \<open>read_csv\<close> below computes it from the cells of the column. The
  frame is never changed after loading.
\<close>

datatype cell = Str string | Num int | NaN

datatype dtype = ObjectDtype | NumericDtype

record dataframe =
  columns :: "(string \<times> dtype) list"
  rows :: "cell list list"

datatype error = KeyError string | AttributeError | TypeError | IndexingError

text \<open>The position and dtype of a column label, \<open>None\<close> when the frame lacks it.\<close>

fun get_loc :: "(string \<times> dtype) list \<Rightarrow> string \<Rightarrow> (nat \<times> dtype) option" where
  "get_loc [] label = None"
| "get_loc ((name, dt) # cs) label =
    (if name = label then Some (0, dt)
     else (case get_loc cs label of None \<Rightarrow> None | Some (i, d) \<Rightarrow> Some (Suc i, d)))"

text \<open>The cell of a row at a position; a row that is too short has a missing cell there.\<close>

definition cell_at :: "nat \<Rightarrow> cell list \<Rightarrow> cell" where
  "cell_at i row = (if i < length row then row ! i else NaN)"

text \<open>\<open>df[label]\<close>: the column as a series (dtype and values), or \<open>KeyError\<close>.\<close>

definition getitem :: "dataframe \<Rightarrow> string \<Rightarrow> error + (dtype \<times> cell list)" where
  "getitem df label =
    (case get_loc (columns df) label of
       None \<Rightarrow> Inl (KeyError label)
     | Some (i, dt) \<Rightarrow> Inr (dt, map (cell_at i) (rows df)))"

text \<open>
  \<open>series.str\<close>: the string accessor exists on a column of object dtype only; on a
  numeric column it raises \<open>AttributeError\<close>.
\<close>

definition str_accessor :: "dtype \<times> cell list \<Rightarrow> error + cell list" where
  "str_accessor series =
    (case fst series of ObjectDtype \<Rightarrow> Inr (snd series) | NumericDtype \<Rightarrow> Inl AttributeError)"

text \<open>\<open>series.str.upper()\<close>: elementwise; a cell that is not a string becomes missing.\<close>

definition str_upper :: "cell list \<Rightarrow> cell list" where
  "str_upper cells = map (\<lambda>c. case c of Str s \<Rightarrow> Str (upper s) | Num n \<Rightarrow> NaN | NaN \<Rightarrow> NaN) cells"

text \<open>\<open>series == value\<close>: elementwise; a missing cell equals nothing.\<close>

definition eq_mask :: "cell list \<Rightarrow> string \<Rightarrow> bool list" where
  "eq_mask cells v = map (\<lambda>c. c = Str v) cells"

text \<open>
  \<open>df[selector]\<close> for a boolean series: the rows whose entry is true, in order; the
  columns are kept.
\<close>

definition boolean_index :: "dataframe \<Rightarrow> bool list \<Rightarrow> dataframe" where
  "boolean_index df selector = df\<lparr>rows := map fst (filter snd (zip (rows df) selector))\<rparr>"

text \<open>\<open>series.unique()\<close>: each value once, in order of first appearance.\<close>

fun unique_from :: "cell list \<Rightarrow> cell list \<Rightarrow> cell list" where
  "unique_from seen [] = []"
| "unique_from seen (c # cs) =
    (if c \<in> set seen then unique_from seen cs else c # unique_from (c # seen) cs)"

definition unique :: "cell list \<Rightarrow> cell list" where
  "unique cells = unique_from [] cells"


section \<open>Loading the dataset: \<open>pd.read_csv\<close> in the constructor\<close>

text \<open>
  The constructor sets \<open>self.df = pd.read_csv(data_path)\<close>. The file is given by its
  header and its records, cell by cell; a blank field is a missing cell. The loader
  chooses the dtype of each column from the cells of the column: object when some cell
  is a string, numeric when there are records and no cell is a string, so a column of
  blank fields only is a numeric (float) column. The columns of a file without records
  are object columns.
\<close>

fun is_str :: "cell \<Rightarrow> bool" where
  "is_str (Str s) = True"
| "is_str (Num n) = False"
| "is_str NaN = False"

definition infer_dtype :: "cell list \<Rightarrow> dtype" where
  "infer_dtype cells =
    (if cells = [] \<or> list_ex is_str cells then ObjectDtype else NumericDtype)"

fun infer_columns :: "nat \<Rightarrow> string list \<Rightarrow> cell list list \<Rightarrow> (string \<times> dtype) list" where
  "infer_columns i [] records = []"
| "infer_columns i (name # names) records =
    (name, infer_dtype (map (cell_at i) records)) # infer_columns (Suc i) names records"

definition read_csv :: "string list \<Rightarrow> cell list list \<Rightarrow> dataframe" where
  "read_csv header records = \<lparr>columns = infer_columns 0 header records, rows = records\<rparr>"


section \<open>Executing the filter: \<open>query\<close>, from the parsed column and value\<close>

text \<open>
  The part of \<open>query\<close> after the column and the value have been read from the
  classifier's output (the statements under "Execute Pandas filter" and "Extract unique
  subjects"). The result is the tuple \<open>(count, unique_subjects, filtered_df)\<close>.
\<close>

type_synonym query_result = "int \<times> cell list \<times> dataframe"

definition execute_filter :: "dataframe \<Rightarrow> string \<Rightarrow> string \<Rightarrow> error + query_result" where
  "execute_filter df target_col filter_val =
    (case getitem df target_col of Inl e \<Rightarrow> Inl e | Inr series \<Rightarrow>
     (case str_accessor series of Inl e \<Rightarrow> Inl e | Inr cells \<Rightarrow>
      (let filtered_df = boolean_index df (eq_mask (str_upper cells) (upper filter_val)) in
       (case getitem filtered_df ''USUBJID'' of Inl e \<Rightarrow> Inl e | Inr subjects \<Rightarrow>
        (let unique_subjects = unique (snd subjects);
             count = int (length unique_subjects)
         in Inr (count, unique_subjects, filtered_df))))))"


section \<open>The classification step: \<open>_call_llm\<close>\<close>

text \<open>
  A Python value as \<open>json.loads\<close> returns it. The payload of a float is not
  inspected by the code and is left out.
\<close>

datatype pyobj =
    PyNone
  | PyBool bool
  | PyInt int
  | PyFloat
  | PyStr string
  | PyList "pyobj list"
  | PyDict "(string \<times> pyobj) list"

text \<open>
  What happens inside the \<open>try\<close> block when the remote classifier is used. The
  remote service and the JSON library are outside the program, so the outcome of the
  block is a parameter: the import fails, some other exception is raised (by the
  client, the request, the access to the response, or \<open>json.loads\<close> on a text that
  is not JSON), or \<open>json.loads\<close> returns a value.
\<close>

datatype remote_outcome =
    ImportFailed
  | Raised string
  | Loaded pyobj

definition as_dict :: "llm_output \<Rightarrow> pyobj" where
  "as_dict r = PyDict [(''target_column'', PyStr (target_column r)),
                       (''filter_value'', PyStr (filter_value r))]"

definition call_llm :: "bool \<Rightarrow> remote_outcome \<Rightarrow> string \<Rightarrow> pyobj" where
  "call_llm use_mock_llm remote question =
    (if use_mock_llm then as_dict (mock_llm_response question)
     else (case remote of
             Loaded result \<Rightarrow> result
           | ImportFailed \<Rightarrow> as_dict (mock_llm_response question)
           | Raised e \<Rightarrow> as_dict (mock_llm_response question)))"

text \<open>\<open>obj[key]\<close> with a string key, as \<open>query\<close> applies it to the classifier's output.\<close>

fun subscript :: "pyobj \<Rightarrow> string \<Rightarrow> error + pyobj" where
  "subscript (PyDict items) key =
    (case map_of items key of None \<Rightarrow> Inl (KeyError key) | Some v \<Rightarrow> Inr v)"
| "subscript obj key = Inl TypeError"


section \<open>The whole of \<open>query\<close>\<close>

text \<open>
  A column label that is not a string selects no column of the frame and a filter value
  that is not a string has no \<open>upper\<close>; which exception pandas raises for a label
  that is not a string depends on the label, and the model records \<open>IndexingError\<close>
  for all of them. Printing is left out.
\<close>

definition query :: "bool \<Rightarrow> remote_outcome \<Rightarrow> dataframe \<Rightarrow> string \<Rightarrow> error + query_result" where
  "query use_mock_llm remote df question =
    (let llm_out = call_llm use_mock_llm remote question in
     case subscript llm_out ''target_column'' of Inl e \<Rightarrow> Inl e | Inr tc \<Rightarrow>
     (case subscript llm_out ''filter_value'' of Inl e \<Rightarrow> Inl e | Inr fv \<Rightarrow>
      (case tc of
         PyStr target_col \<Rightarrow>
           (case fv of
              PyStr filter_val \<Rightarrow> execute_filter df target_col filter_val
            | _ \<Rightarrow>
              (case getitem df target_col of Inl e \<Rightarrow> Inl e | Inr series \<Rightarrow>
               (case str_accessor series of Inl e \<Rightarrow> Inl e | Inr cells \<Rightarrow> Inl AttributeError)))
       | _ \<Rightarrow> Inl IndexingError)))"


section \<open>The filterable columns\<close>

text \<open>
  The columns that the prompt of \<open>_call_llm\<close> allows as \<open>target_column\<close> ("must be
  exactly one of ..."), the seven filterable columns of the specification.
\<close>

definition filterable_columns :: "string list" where
  "filterable_columns =
    [''AETERM'', ''AESEV'', ''AESOC'', ''AEBODSYS'', ''AESER'', ''AEREL'', ''AEOUT'']"


section \<open>The rules in the words of the specification\<close>

text \<open>
  When each rule of the resolver matches, as the specification words it, on the
  lowercased question.
\<close>

definition severity_rule_matches :: "string \<Rightarrow> bool" where
  "severity_rule_matches ql \<longleftrightarrow>
     any_in [''severity'', ''severe'', ''intensity'', ''intense''] ql
     \<and> any_in [''mild'', ''moderate'', ''severe''] ql"

definition body_system_rule_matches :: "string \<Rightarrow> bool" where
  "body_system_rule_matches ql \<longleftrightarrow>
     any_in [''cardiac'', ''heart'', ''cardiovascular'', ''skin'', ''dermal'', ''dermatologic'',
             ''gastrointestinal'', ''digestive'', ''gi'', ''stomach'', ''infection'', ''infectious'',
             ''general disorder'', ''administration site''] ql"

definition condition_rule_matches :: "string \<Rightarrow> bool" where
  "condition_rule_matches ql \<longleftrightarrow> any_in (map fst conditions) ql"

definition serious_rule_matches :: "string \<Rightarrow> bool" where
  "serious_rule_matches ql \<longleftrightarrow> is_in ''serious'' ql"

definition relationship_rule_matches :: "string \<Rightarrow> bool" where
  "relationship_rule_matches ql \<longleftrightarrow>
     (is_in ''relationship'' ql \<or> is_in ''related'' ql)
     \<and> any_in [''probable'', ''possible'', ''remote'', ''none''] ql"

definition outcome_rule_matches :: "string \<Rightarrow> bool" where
  "outcome_rule_matches ql \<longleftrightarrow> any_in [''outcome'', ''resolved'', ''recovered''] ql"


section \<open>The result of the filter in the words of the specification\<close>

text \<open>
  A cell matches a value iff it is a string whose uppercasing equals the uppercasing of
  the value; a missing cell matches nothing.
\<close>

definition matches :: "string \<Rightarrow> cell \<Rightarrow> bool" where
  "matches v c = (case c of Str s \<Rightarrow> upper s = upper v | Num n \<Rightarrow> False | NaN \<Rightarrow> False)"

text \<open>The matching rows: all rows whose cell in the column matches, in the order of the dataset.\<close>

definition matching_rows :: "dataframe \<Rightarrow> string \<Rightarrow> string \<Rightarrow> cell list list" where
  "matching_rows df c v =
    (case get_loc (columns df) c of
       None \<Rightarrow> []
     | Some (i, dt) \<Rightarrow> filter (\<lambda>row. matches v (cell_at i row)) (rows df))"

text \<open>The USUBJID cells of some rows of the dataset, row by row.\<close>

definition subject_cells :: "dataframe \<Rightarrow> cell list list \<Rightarrow> cell list" where
  "subject_cells df rs =
    (case get_loc (columns df) ''USUBJID'' of
       None \<Rightarrow> []
     | Some (j, dt) \<Rightarrow> map (cell_at j) rs)"

text \<open>The distinct values of a list in first-seen order.\<close>

fun first_seen :: "'a list \<Rightarrow> 'a list" where
  "first_seen [] = []"
| "first_seen (x # xs) = x # removeAll x (first_seen xs)"


section \<open>Example data\<close>

text \<open>
  A small dataset: subject S1 has two matching events, the severity is written in
  three spellings, one severity cell is missing, and the column AESEQ is numeric.
\<close>

definition adae_sample :: dataframe where
  "adae_sample =
    \<lparr>columns = [(''USUBJID'', ObjectDtype), (''AESEV'', ObjectDtype), (''AESEQ'', NumericDtype)],
     rows = [[Str ''S1'', Str ''Moderate'', Num 1],
             [Str ''S2'', NaN, Num 2],
             [Str ''S1'', Str ''MODERATE'', Num 3],
             [Str ''S3'', Str ''MILD'', Num 4],
             [Str ''S0'', Str ''moderate'', NaN]]\<rparr>"

text \<open>
  A dataset with all the columns of the schema and one event, whose severity is
  recorded as a number: the column AESEV has a numeric dtype.
\<close>

definition numeric_frame :: dataframe where
  "numeric_frame =
    \<lparr>columns = [(''USUBJID'', ObjectDtype), (''AETERM'', ObjectDtype), (''AESEV'', NumericDtype),
                (''AESOC'', ObjectDtype), (''AEBODSYS'', ObjectDtype), (''AESER'', ObjectDtype),
                (''AEREL'', ObjectDtype), (''AEOUT'', ObjectDtype), (''AESTDTC'', ObjectDtype),
                (''AEENDTC'', ObjectDtype)],
     rows = [[Str ''S1'', Str ''ERYTHEMA'', Num 2, Str ''SKIN'', Str ''SKIN'', Str ''N'',
              Str ''PROBABLE'', Str ''RECOVERED/RESOLVED'', Str ''2014-01-03'',
              Str ''2014-01-09'']]\<rparr>"

text \<open>A dataset without the column USUBJID.\<close>

definition no_subject_frame :: dataframe where
  "no_subject_frame =
    \<lparr>columns = [(''AETERM'', ObjectDtype), (''AESEV'', ObjectDtype)],
     rows = [[Str ''ERYTHEMA'', Str ''MILD'']]\<rparr>"

text \<open>
  The records of two files with the header USUBJID, AETERM, AESEV: in the first no
  severity was recorded, in the second one severity was.
\<close>

definition blank_severity_records :: "cell list list" where
  "blank_severity_records =
    [[Str ''S1'', Str ''ERYTHEMA'', NaN], [Str ''S2'', Str ''NAUSEA'', NaN]]"

definition one_severity_records :: "cell list list" where
  "one_severity_records =
    [[Str ''S1'', Str ''ERYTHEMA'', NaN], [Str ''S2'', Str ''NAUSEA'', Str ''Mild'']]"

text \<open>
  A response of the remote classifier that is valid JSON, an object with two string
  fields, but not with the two expected field names.
\<close>

definition wrong_shape :: pyobj where
  "wrong_shape = PyDict [(''column'', PyStr ''AESEV''), (''value'', PyStr ''MILD'')]"


section \<open>Substring test and case conversion\<close>

lemmas case_defs = lower_def upper_def lower_char_def upper_char_def upper_letters_def lower_letters_def

lemma startswith_map: "startswith s p \<Longrightarrow> startswith (map f s) (map f p)"
  by (induction s p rule: startswith.induct) auto

lemma is_in_map: "is_in w s \<Longrightarrow> is_in (map f w) (map f s)"
proof (induction s)
  case Nil
  then show ?case by simp
next
  case (Cons c cs)
  from Cons.prems have "startswith (c # cs) w \<or> is_in w cs" by simp
  then show ?case
  proof
    assume "startswith (c # cs) w"
    then have "startswith (map f (c # cs)) (map f w)" by (rule startswith_map)
    then show ?thesis by simp
  next
    assume "is_in w cs"
    then have "is_in (map f w) (map f cs)" by (rule Cons.IH)
    then show ?thesis by simp
  qed
qed

lemma startswith_iff: "startswith s p \<longleftrightarrow> (\<exists>post. s = p @ post)"
  by (induction s p rule: startswith.induct) auto

lemma is_in_iff: "is_in w s \<longleftrightarrow> (\<exists>pre post. s = pre @ w @ post)"
proof (induction s)
  case Nil
  then show ?case by auto
next
  case (Cons c cs)
  show ?case
  proof
    assume "is_in w (c # cs)"
    then have "startswith (c # cs) w \<or> is_in w cs" by simp
    then show "\<exists>pre post. c # cs = pre @ w @ post"
    proof
      assume "startswith (c # cs) w"
      then obtain post where "c # cs = w @ post" by (auto simp: startswith_iff)
      then have "c # cs = [] @ w @ post" by simp
      then show ?thesis by blast
    next
      assume "is_in w cs"
      then obtain pre post where "cs = pre @ w @ post" using Cons.IH by blast
      then have "c # cs = (c # pre) @ w @ post" by simp
      then show ?thesis by blast
    qed
  next
    assume "\<exists>pre post. c # cs = pre @ w @ post"
    then obtain pre post where eq: "c # cs = pre @ w @ post" by blast
    show "is_in w (c # cs)"
    proof (cases pre)
      case Nil
      with eq have "startswith (c # cs) w" by (auto simp: startswith_iff)
      then show ?thesis by simp
    next
      case (Cons d pre')
      with eq have "cs = pre' @ w @ post" by simp
      then have "is_in w cs" using Cons.IH by blast
      then show ?thesis by simp
    qed
  qed
qed


section \<open>Properties of the rule-based resolver\<close>

lemma severity_mapping_Some:
  "severity_mapping ql = Some r \<Longrightarrow>
     target_column r = ''AESEV'' \<and> filter_value r \<in> set [''MILD'', ''MODERATE'', ''SEVERE'']"
  by (auto simp: severity_mapping_def split: if_splits)

lemma body_system_mapping_Some:
  "body_system_mapping ql = Some r \<Longrightarrow>
     target_column r = ''AESOC'' \<and>
     filter_value r \<in> set [''CARDIAC DISORDERS'', ''SKIN AND SUBCUTANEOUS TISSUE DISORDERS'',
       ''GASTROINTESTINAL DISORDERS'', ''INFECTIONS AND INFESTATIONS'',
       ''GENERAL DISORDERS AND ADMINISTRATION SITE CONDITIONS'']"
  by (auto simp: body_system_mapping_def split: if_splits)

lemma condition_loop_Some:
  "condition_loop items ql = Some r \<Longrightarrow>
     target_column r = ''AETERM'' \<and> filter_value r \<in> snd ` set items"
  by (induction items ql rule: condition_loop.induct) (auto split: if_splits)

lemma serious_mapping_Some:
  "serious_mapping ql = Some r \<Longrightarrow> r = \<lparr>target_column = ''AESER'', filter_value = ''Y''\<rparr>"
  by (auto simp: serious_mapping_def split: if_splits)

lemma relationship_mapping_Some:
  "relationship_mapping ql = Some r \<Longrightarrow>
     target_column r = ''AEREL'' \<and>
     filter_value r \<in> set [''PROBABLE'', ''POSSIBLE'', ''REMOTE'', ''NONE'']"
  by (auto simp: relationship_mapping_def split: if_splits)

lemma outcome_mapping_Some:
  "outcome_mapping ql = Some r \<Longrightarrow>
     target_column r = ''AEOUT'' \<and>
     filter_value r \<in> set [''NOT RECOVERED/NOT RESOLVED'', ''RECOVERED/RESOLVED'']"
  by (auto simp: outcome_mapping_def split: if_splits)

text \<open>The block that produced the answer.\<close>

lemma mock_llm_response_cases:
  "(\<exists>r. severity_mapping (lower q) = Some r \<and> mock_llm_response q = r)
   \<or> (\<exists>r. body_system_mapping (lower q) = Some r \<and> mock_llm_response q = r)
   \<or> (\<exists>r. condition_mapping (lower q) = Some r \<and> mock_llm_response q = r)
   \<or> (\<exists>r. serious_mapping (lower q) = Some r \<and> mock_llm_response q = r)
   \<or> (\<exists>r. relationship_mapping (lower q) = Some r \<and> mock_llm_response q = r)
   \<or> (\<exists>r. outcome_mapping (lower q) = Some r \<and> mock_llm_response q = r)
   \<or> mock_llm_response q = \<lparr>target_column = ''AESEV'', filter_value = ''MILD''\<rparr>"
  by (simp add: mock_llm_response_def Let_def split: option.splits)

lemma mock_target_column:
  "target_column (mock_llm_response q) \<in> set [''AESEV'', ''AESOC'', ''AETERM'', ''AESER'', ''AEREL'', ''AEOUT'']"
  using mock_llm_response_cases [of q]
  by (auto simp: condition_mapping_def dest!: severity_mapping_Some body_system_mapping_Some condition_loop_Some
     serious_mapping_Some relationship_mapping_Some outcome_mapping_Some)

text \<open>Every value the resolver can return is one of the constants of the source.\<close>

lemma mock_filter_value_cases:
  assumes fixed: "list_all P [''MILD'', ''MODERATE'', ''SEVERE'', ''CARDIAC DISORDERS'',
        ''SKIN AND SUBCUTANEOUS TISSUE DISORDERS'', ''GASTROINTESTINAL DISORDERS'',
        ''INFECTIONS AND INFESTATIONS'', ''GENERAL DISORDERS AND ADMINISTRATION SITE CONDITIONS'',
        ''Y'', ''PROBABLE'', ''POSSIBLE'', ''REMOTE'', ''NONE'',
        ''NOT RECOVERED/NOT RESOLVED'', ''RECOVERED/RESOLVED'']"
    and table: "list_all P (map snd conditions)"
  shows "P (filter_value (mock_llm_response q))"
proof -
  have sev: "\<And>r. severity_mapping (lower q) = Some r \<Longrightarrow> P (filter_value r)"
    using fixed by (auto dest!: severity_mapping_Some)
  have body: "\<And>r. body_system_mapping (lower q) = Some r \<Longrightarrow> P (filter_value r)"
    using fixed by (auto dest!: body_system_mapping_Some)
  have cond: "\<And>r. condition_mapping (lower q) = Some r \<Longrightarrow> P (filter_value r)"
    unfolding condition_mapping_def using table
    by (auto dest!: condition_loop_Some simp: list_all_iff)
  have ser: "\<And>r. serious_mapping (lower q) = Some r \<Longrightarrow> P (filter_value r)"
    using fixed by (auto dest!: serious_mapping_Some)
  have rel: "\<And>r. relationship_mapping (lower q) = Some r \<Longrightarrow> P (filter_value r)"
    using fixed by (auto dest!: relationship_mapping_Some)
  have out: "\<And>r. outcome_mapping (lower q) = Some r \<Longrightarrow> P (filter_value r)"
    using fixed by (auto dest!: outcome_mapping_Some)
  have dflt: "P ''MILD''" using fixed by simp
  show ?thesis
    using mock_llm_response_cases [of q] sev body cond ser rel out dflt by auto
qed

lemma mock_filter_value_nonempty: "filter_value (mock_llm_response q) \<noteq> []"
  by (rule mock_filter_value_cases [where P = "\<lambda>v. v \<noteq> []"]; code_simp)

lemma mock_filter_value_upper:
  "upper (filter_value (mock_llm_response q)) = filter_value (mock_llm_response q)"
  by (rule mock_filter_value_cases [where P = "\<lambda>v. upper v = v"]; code_simp)

lemma severity_mapping_None: "severity_mapping ql = None \<longleftrightarrow> \<not> severity_rule_matches ql"
  by (auto simp: severity_mapping_def severity_rule_matches_def any_in_def)

lemma body_system_mapping_None: "body_system_mapping ql = None \<longleftrightarrow> \<not> body_system_rule_matches ql"
  by (auto simp: body_system_mapping_def body_system_rule_matches_def any_in_def)

lemma condition_loop_None: "condition_loop items ql = None \<longleftrightarrow> \<not> any_in (map fst items) ql"
  by (induction items ql rule: condition_loop.induct) (auto simp: any_in_def)

lemma condition_mapping_None: "condition_mapping ql = None \<longleftrightarrow> \<not> condition_rule_matches ql"
  by (simp add: condition_mapping_def condition_rule_matches_def condition_loop_None)

lemma serious_mapping_None: "serious_mapping ql = None \<longleftrightarrow> \<not> serious_rule_matches ql"
  by (auto simp: serious_mapping_def serious_rule_matches_def)

lemma relationship_mapping_None: "relationship_mapping ql = None \<longleftrightarrow> \<not> relationship_rule_matches ql"
  by (auto simp: relationship_mapping_def relationship_rule_matches_def any_in_def)

lemma outcome_mapping_None: "outcome_mapping ql = None \<longleftrightarrow> \<not> outcome_rule_matches ql"
  by (auto simp: outcome_mapping_def outcome_rule_matches_def any_in_def)

lemma lower_keyword:
  "w \<in> set [''severity'', ''severe'', ''intensity'', ''intense''] \<Longrightarrow> lower w = w"
  by (auto simp: case_defs)

lemma any_in_triggers_lower:
  assumes "any_in [''severity'', ''severe'', ''intensity'', ''intense''] q"
  shows "any_in [''severity'', ''severe'', ''intensity'', ''intense''] (lower q)"
proof -
  from assms obtain w where w: "w \<in> set [''severity'', ''severe'', ''intensity'', ''intense'']" "is_in w q"
    unfolding any_in_def list_ex_iff by blast
  from w(2) have "is_in (lower w) (lower q)" unfolding lower_def by (rule is_in_map)
  with w(1) have "is_in w (lower q)" using lower_keyword by metis
  with w(1) show ?thesis unfolding any_in_def list_ex_iff by blast
qed

text \<open>
  C2: a question that contains a severity trigger word (in the question or in its
  lowercasing) and whose lowercasing contains exactly one of the level words "mild",
  "moderate", "severe" is resolved to column AESEV with that level word uppercased,
  whatever other keywords it contains: the severity block is the first one.
\<close>

theorem severity_rule_first:
  assumes trigger: "any_in [''severity'', ''severe'', ''intensity'', ''intense''] question
                    \<or> any_in [''severity'', ''severe'', ''intensity'', ''intense''] (lower question)"
    and level: "level \<in> set [''mild'', ''moderate'', ''severe'']"
    and present: "is_in level (lower question)"
    and only: "\<forall>w \<in> set [''mild'', ''moderate'', ''severe'']. is_in w (lower question) \<longrightarrow> w = level"
  shows "mock_llm_response question = \<lparr>target_column = ''AESEV'', filter_value = upper level\<rparr>"
proof -
  have t: "any_in [''severity'', ''severe'', ''intensity'', ''intense''] (lower question)"
    using trigger any_in_triggers_lower by blast
  from level have "level = ''mild'' \<or> level = ''moderate'' \<or> level = ''severe''" by simp
  then have "severity_mapping (lower question) = Some \<lparr>target_column = ''AESEV'', filter_value = upper level\<rparr>"
  proof (elim disjE)
    assume l: "level = ''mild''"
    have "upper ''mild'' = ''MILD''" by code_simp
    with l t present show ?thesis by (simp add: severity_mapping_def)
  next
    assume l: "level = ''moderate''"
    have u: "upper ''moderate'' = ''MODERATE''" by code_simp
    from only l have "\<not> is_in ''mild'' (lower question)" by auto
    with l t present u show ?thesis by (simp add: severity_mapping_def)
  next
    assume l: "level = ''severe''"
    have u: "upper ''severe'' = ''SEVERE''" by code_simp
    from only l have "\<not> is_in ''mild'' (lower question)" "\<not> is_in ''moderate'' (lower question)" by auto
    with l t present u show ?thesis by (simp add: severity_mapping_def)
  qed
  then show ?thesis by (simp add: mock_llm_response_def Let_def)
qed

theorem severity_rule_first_witness:
  "mock_llm_response ''Moderate severity, cardiac, serious''
     = \<lparr>target_column = ''AESEV'', filter_value = ''MODERATE''\<rparr>"
proof -
  have l: "lower ''Moderate severity, cardiac, serious'' = ''moderate severity, cardiac, serious''"
    by code_simp
  have u: "upper ''moderate'' = ''MODERATE''" by code_simp
  have "mock_llm_response ''Moderate severity, cardiac, serious''
     = \<lparr>target_column = ''AESEV'', filter_value = upper ''moderate''\<rparr>"
    by (rule severity_rule_first) (simp_all add: l any_in_def)
  with u show ?thesis by simp
qed

text \<open>
  C3: when the seriousness rule fires (the lowercased question contains "serious" and
  none of the severity, body-system and specific-condition rules matched), the resolver
  returns column AESER with the value "Y" if the question contains "yes" or "serious" and
  "N" otherwise, and that value is "Y". The resolver never returns AESER with "N": whenever
  the column is AESER the value is "Y".
\<close>

theorem serious_rule_always_yes:
  "(serious_rule_matches (lower question) \<and> \<not> severity_rule_matches (lower question)
      \<and> \<not> body_system_rule_matches (lower question) \<and> \<not> condition_rule_matches (lower question)
    \<longrightarrow> mock_llm_response question
          = \<lparr>target_column = ''AESER'',
             filter_value = (if is_in ''yes'' (lower question) \<or> is_in ''serious'' (lower question)
                             then ''Y'' else ''N'')\<rparr>
        \<and> mock_llm_response question = \<lparr>target_column = ''AESER'', filter_value = ''Y''\<rparr>)
   \<and> mock_llm_response question \<noteq> \<lparr>target_column = ''AESER'', filter_value = ''N''\<rparr>
   \<and> (target_column (mock_llm_response question) = ''AESER''
        \<longrightarrow> filter_value (mock_llm_response question) = ''Y'')"
proof -
  have fires: "mock_llm_response question = \<lparr>target_column = ''AESER'', filter_value = ''Y''\<rparr>"
    if "serious_rule_matches (lower question)" "\<not> severity_rule_matches (lower question)"
       "\<not> body_system_rule_matches (lower question)" "\<not> condition_rule_matches (lower question)"
  proof -
    from that have "severity_mapping (lower question) = None"
      "body_system_mapping (lower question) = None" "condition_mapping (lower question) = None"
      by (simp_all add: severity_mapping_None body_system_mapping_None condition_mapping_None)
    moreover from that have "is_in ''serious'' (lower question)"
      by (simp add: serious_rule_matches_def)
    ultimately show ?thesis
      by (simp add: mock_llm_response_def Let_def serious_mapping_def)
  qed
  have col: "filter_value (mock_llm_response question) = ''Y''"
    if "target_column (mock_llm_response question) = ''AESER''"
    using mock_llm_response_cases [of question] that
    by (auto simp: condition_mapping_def dest!: severity_mapping_Some body_system_mapping_Some
        condition_loop_Some serious_mapping_Some relationship_mapping_Some outcome_mapping_Some)
  from col have "mock_llm_response question \<noteq> \<lparr>target_column = ''AESER'', filter_value = ''N''\<rparr>"
    by auto
  with fires col show ?thesis by (auto simp: serious_rule_matches_def)
qed

theorem serious_rule_always_yes_witness:
  "serious_rule_matches (lower ''Is it Serious?'') \<and> \<not> severity_rule_matches (lower ''Is it Serious?'')
   \<and> \<not> body_system_rule_matches (lower ''Is it Serious?'')
   \<and> \<not> condition_rule_matches (lower ''Is it Serious?'')
   \<and> mock_llm_response ''Is it Serious?'' = \<lparr>target_column = ''AESER'', filter_value = ''Y''\<rparr>"
proof -
  have h: "serious_rule_matches (lower ''Is it Serious?'')" "\<not> severity_rule_matches (lower ''Is it Serious?'')"
       "\<not> body_system_rule_matches (lower ''Is it Serious?'')"
       "\<not> condition_rule_matches (lower ''Is it Serious?'')"
    by code_simp+
  with serious_rule_always_yes [of "''Is it Serious?''"] show ?thesis by blast
qed

text \<open>
  C6: the resolver is total. For every question it returns a pair whose column is one
  of the filterable columns and whose value is not empty; the function has no failing
  branch. When none of the six rules matches the lowercased question it returns the
  default, column AESEV with value "MILD"; the empty question is such an input.
\<close>

theorem resolver_total:
  "target_column (mock_llm_response question) \<in> set filterable_columns
   \<and> filter_value (mock_llm_response question) \<noteq> []
   \<and> (\<not> severity_rule_matches (lower question) \<and> \<not> body_system_rule_matches (lower question)
        \<and> \<not> condition_rule_matches (lower question) \<and> \<not> serious_rule_matches (lower question)
        \<and> \<not> relationship_rule_matches (lower question) \<and> \<not> outcome_rule_matches (lower question)
      \<longrightarrow> mock_llm_response question = \<lparr>target_column = ''AESEV'', filter_value = ''MILD''\<rparr>)
   \<and> mock_llm_response [] = \<lparr>target_column = ''AESEV'', filter_value = ''MILD''\<rparr>"
proof -
  have col: "target_column (mock_llm_response question) \<in> set filterable_columns"
    using mock_target_column [of question] by (auto simp: filterable_columns_def)
  have dflt: "mock_llm_response question = \<lparr>target_column = ''AESEV'', filter_value = ''MILD''\<rparr>"
    if "\<not> severity_rule_matches (lower question)" "\<not> body_system_rule_matches (lower question)"
       "\<not> condition_rule_matches (lower question)" "\<not> serious_rule_matches (lower question)"
       "\<not> relationship_rule_matches (lower question)" "\<not> outcome_rule_matches (lower question)"
  proof -
    from that have "severity_mapping (lower question) = None"
      "body_system_mapping (lower question) = None" "condition_mapping (lower question) = None"
      "serious_mapping (lower question) = None" "relationship_mapping (lower question) = None"
      "outcome_mapping (lower question) = None"
      by (simp_all add: severity_mapping_None body_system_mapping_None condition_mapping_None
          serious_mapping_None relationship_mapping_None outcome_mapping_None)
    then show ?thesis by (simp add: mock_llm_response_def Let_def)
  qed
  have empty: "mock_llm_response [] = \<lparr>target_column = ''AESEV'', filter_value = ''MILD''\<rparr>"
    by code_simp
  from col mock_filter_value_nonempty [of question] dflt empty show ?thesis by blast
qed

theorem resolver_total_witness:
  "\<not> severity_rule_matches (lower ''Hello'') \<and> \<not> body_system_rule_matches (lower ''Hello'')
   \<and> \<not> condition_rule_matches (lower ''Hello'') \<and> \<not> serious_rule_matches (lower ''Hello'')
   \<and> \<not> relationship_rule_matches (lower ''Hello'') \<and> \<not> outcome_rule_matches (lower ''Hello'')
   \<and> mock_llm_response ''Hello'' = \<lparr>target_column = ''AESEV'', filter_value = ''MILD''\<rparr>"
proof -
  have h: "\<not> severity_rule_matches (lower ''Hello'')" "\<not> body_system_rule_matches (lower ''Hello'')"
   "\<not> condition_rule_matches (lower ''Hello'')" "\<not> serious_rule_matches (lower ''Hello'')"
   "\<not> relationship_rule_matches (lower ''Hello'')" "\<not> outcome_rule_matches (lower ''Hello'')"
    by code_simp+
  with resolver_total [of "''Hello''"] show ?thesis by blast
qed

text \<open>
  C9: every value the resolver returns is already uppercase, so for a query resolved
  by the rules the filter compares the uppercased cells with the value itself: the
  comparison series and the whole result of the filter are the same with and without
  uppercasing the value.
\<close>

theorem resolver_values_uppercase:
  "upper (filter_value (mock_llm_response question)) = filter_value (mock_llm_response question)
   \<and> eq_mask (str_upper cells) (upper (filter_value (mock_llm_response question)))
       = eq_mask (str_upper cells) (filter_value (mock_llm_response question))
   \<and> execute_filter df (target_column (mock_llm_response question))
        (upper (filter_value (mock_llm_response question)))
       = execute_filter df (target_column (mock_llm_response question))
          (filter_value (mock_llm_response question))"
  by (simp add: mock_filter_value_upper)

text \<open>Each of the six columns is returned for some question.\<close>

lemma column_examples:
  "target_column (mock_llm_response []) = ''AESEV''"
  "target_column (mock_llm_response ''skin'') = ''AESOC''"
  "target_column (mock_llm_response ''nausea'') = ''AETERM''"
  "target_column (mock_llm_response ''serious'') = ''AESER''"
  "target_column (mock_llm_response ''related none'') = ''AEREL''"
  "target_column (mock_llm_response ''outcome'') = ''AEOUT''"
  by code_simp+

text \<open>
  C10: the columns the resolver returns are exactly AESEV, AESOC, AETERM, AESER, AEREL
  and AEOUT. It never returns AEBODSYS, although AEBODSYS is one of the filterable
  columns.
\<close>

theorem resolver_six_columns:
  "target_column ` range mock_llm_response
     = set [''AESEV'', ''AESOC'', ''AETERM'', ''AESER'', ''AEREL'', ''AEOUT'']
   \<and> target_column (mock_llm_response question) \<noteq> ''AEBODSYS''
   \<and> ''AEBODSYS'' \<in> set filterable_columns"
proof -
  have sub: "target_column ` range mock_llm_response
     \<subseteq> set [''AESEV'', ''AESOC'', ''AETERM'', ''AESER'', ''AEREL'', ''AEOUT'']"
    using mock_target_column by blast
  have ex: "target_column (mock_llm_response q) \<in> target_column ` range mock_llm_response" for q
    by (rule imageI) (rule rangeI)
  have m1: "''AESEV'' \<in> target_column ` range mock_llm_response"
    using ex [of "[]"] by (simp only: column_examples)
  have m2: "''AESOC'' \<in> target_column ` range mock_llm_response"
    using ex [of "''skin''"] by (simp only: column_examples)
  have m3: "''AETERM'' \<in> target_column ` range mock_llm_response"
    using ex [of "''nausea''"] by (simp only: column_examples)
  have m4: "''AESER'' \<in> target_column ` range mock_llm_response"
    using ex [of "''serious''"] by (simp only: column_examples)
  have m5: "''AEREL'' \<in> target_column ` range mock_llm_response"
    using ex [of "''related none''"] by (simp only: column_examples)
  have m6: "''AEOUT'' \<in> target_column ` range mock_llm_response"
    using ex [of "''outcome''"] by (simp only: column_examples)
  have sup: "set [''AESEV'', ''AESOC'', ''AETERM'', ''AESER'', ''AEREL'', ''AEOUT'']
     \<subseteq> target_column ` range mock_llm_response"
    unfolding list.set using m1 m2 m3 m4 m5 m6 by (intro insert_subsetI empty_subsetI)
  from sub sup have eq: "target_column ` range mock_llm_response
     = set [''AESEV'', ''AESOC'', ''AETERM'', ''AESER'', ''AEREL'', ''AEOUT'']"
    by (rule subset_antisym)
  have notin: "''AEBODSYS'' \<notin> set [''AESEV'', ''AESOC'', ''AETERM'', ''AESER'', ''AEREL'', ''AEOUT'']"
    by simp
  have ne: "target_column (mock_llm_response question) \<noteq> ''AEBODSYS''"
  proof
    assume e: "target_column (mock_llm_response question) = ''AEBODSYS''"
    show False using mock_target_column [of question] notin unfolding e by contradiction
  qed
  have bod: "''AEBODSYS'' \<in> set filterable_columns" by (simp add: filterable_columns_def)
  from eq ne bod show ?thesis by (intro conjI)
qed


section \<open>Properties of the filter\<close>

lemma set_first_seen: "set (first_seen xs) = set xs"
  by (induction xs) auto

lemma distinct_first_seen: "distinct (first_seen xs)"
  by (induction xs) (auto simp: distinct_removeAll)

lemma length_first_seen: "length (first_seen xs) = card (set xs)"
  using distinct_card [OF distinct_first_seen, of xs] by (simp add: set_first_seen)

lemma length_first_seen_le: "length (first_seen xs) \<le> length xs"
  by (simp add: length_first_seen card_length)

lemma unique_from_first_seen:
  "unique_from seen cs = filter (\<lambda>c. c \<notin> set seen) (first_seen cs)"
proof (induction cs arbitrary: seen)
  case Nil
  show ?case by simp
next
  case (Cons c cs)
  show ?case
  proof (cases "c \<in> set seen")
    case True
    then have "filter (\<lambda>x. x \<notin> set seen) (removeAll c (first_seen cs))
      = filter (\<lambda>x. x \<notin> set seen) (first_seen cs)"
      by (auto simp: removeAll_filter_not_eq intro: filter_cong)
    with True Cons.IH [of seen] show ?thesis by simp
  next
    case False
    have "filter (\<lambda>x. x \<notin> set (c # seen)) (first_seen cs)
      = filter (\<lambda>x. x \<notin> set seen) (removeAll c (first_seen cs))"
      by (auto simp: removeAll_filter_not_eq intro: filter_cong)
    with False Cons.IH [of "c # seen"] show ?thesis by simp
  qed
qed

lemma unique_first_seen: "unique cs = first_seen cs"
  by (simp add: unique_def unique_from_first_seen)

lemma select_by_mask: "map fst (filter snd (zip xs (map P xs))) = filter P xs"
  by (induction xs) auto

lemma eq_mask_matches: "eq_mask (str_upper cells) (upper v) = map (matches v) cells"
  by (auto simp: eq_mask_def str_upper_def matches_def split: cell.splits)

lemma boolean_index_filter:
  "boolean_index df (eq_mask (str_upper (map (cell_at i) (rows df))) (upper v))
     = df\<lparr>rows := filter (\<lambda>row. matches v (cell_at i row)) (rows df)\<rparr>"
proof -
  have "map (matches v) (map (cell_at i) (rows df)) = map (\<lambda>row. matches v (cell_at i row)) (rows df)"
    by simp
  then show ?thesis
    by (simp only: boolean_index_def eq_mask_matches select_by_mask)
qed

lemma execute_filter_eq:
  "execute_filter df c v =
    (case get_loc (columns df) c of
       None \<Rightarrow> Inl (KeyError c)
     | Some (i, dt) \<Rightarrow>
        (case dt of
           NumericDtype \<Rightarrow> Inl AttributeError
         | ObjectDtype \<Rightarrow>
            (case get_loc (columns df) ''USUBJID'' of
               None \<Rightarrow> Inl (KeyError ''USUBJID'')
             | Some (j, d) \<Rightarrow>
                 Inr (int (length (first_seen (subject_cells df (matching_rows df c v)))),
                      first_seen (subject_cells df (matching_rows df c v)),
                      df\<lparr>rows := matching_rows df c v\<rparr>))))"
  by (simp add: execute_filter_def getitem_def str_accessor_def boolean_index_filter
      unique_first_seen matching_rows_def subject_cells_def Let_def
      split: option.splits dtype.splits prod.splits)

lemma length_subject_cells_le: "length (subject_cells df rs) \<le> length rs"
  by (simp add: subject_cells_def split: option.splits prod.splits)

text \<open>
  C1: whenever the filter returns a result \<open>(count, subject_ids, matched)\<close>, the rows of
  \<open>matched\<close> are exactly the matching rows in the order of the dataset (and its columns
  are those of the dataset), \<open>subject_ids\<close> is the list of the distinct USUBJID cells of
  the matched rows in first-seen order, and \<open>count\<close> is the number of those distinct
  values, which is at most the number of matched rows. A missing USUBJID cell counts as
  one value, as \<open>unique\<close> returns it.
\<close>

theorem query_result_contract:
  assumes "execute_filter df c v = Inr (count, subject_ids, matched)"
  shows "rows matched = matching_rows df c v
    \<and> columns matched = columns df
    \<and> subject_ids = first_seen (subject_cells df (rows matched))
    \<and> distinct subject_ids
    \<and> set subject_ids = set (subject_cells df (rows matched))
    \<and> count = int (length subject_ids)
    \<and> count = int (card (set (subject_cells df (rows matched))))
    \<and> count \<le> int (length (rows matched))"
proof -
  from assms have m: "matched = df\<lparr>rows := matching_rows df c v\<rparr>"
    and s: "subject_ids = first_seen (subject_cells df (matching_rows df c v))"
    and n: "count = int (length subject_ids)"
    by (auto simp: execute_filter_eq split: option.splits dtype.splits prod.splits)
  from m have r: "rows matched = matching_rows df c v" and cs: "columns matched = columns df"
    by simp_all
  have le: "length subject_ids \<le> length (rows matched)"
    unfolding s r using length_first_seen_le length_subject_cells_le by (rule le_trans)
  from r cs s n le show ?thesis
    by (simp add: distinct_first_seen set_first_seen length_first_seen)
qed

theorem query_result_contract_witness:
  "execute_filter adae_sample ''AESEV'' ''moderate''
     = Inr (2, [Str ''S1'', Str ''S0''],
            adae_sample\<lparr>rows := [[Str ''S1'', Str ''Moderate'', Num 1],
                                 [Str ''S1'', Str ''MODERATE'', Num 3],
                                 [Str ''S0'', Str ''moderate'', NaN]]\<rparr>)
   \<and> matching_rows adae_sample ''AESEV'' ''moderate''
       = [[Str ''S1'', Str ''Moderate'', Num 1],
          [Str ''S1'', Str ''MODERATE'', Num 3],
          [Str ''S0'', Str ''moderate'', NaN]]
   \<and> (2::int) \<le> 3"
proof -
  have e: "execute_filter adae_sample ''AESEV'' ''moderate''
     = Inr (2, [Str ''S1'', Str ''S0''],
            adae_sample\<lparr>rows := [[Str ''S1'', Str ''Moderate'', Num 1],
                                 [Str ''S1'', Str ''MODERATE'', Num 3],
                                 [Str ''S0'', Str ''moderate'', NaN]]\<rparr>)"
    by code_simp
  from query_result_contract [OF e] e show ?thesis by simp
qed

text \<open>
  C4, as stated, fails: the column AESEV is present in both datasets, and the filter
  fails on both; on the first with \<open>AttributeError\<close>, which is not the error of a
  missing column, because the column has a numeric dtype, on the second with
  \<open>KeyError\<close> for USUBJID.
\<close>

theorem query_fails_on_present_column:
  "get_loc (columns numeric_frame) ''AESEV'' = Some (2, NumericDtype)
   \<and> execute_filter numeric_frame ''AESEV'' ''MILD'' = Inl AttributeError
   \<and> get_loc (columns no_subject_frame) ''AESEV'' = Some (1, ObjectDtype)
   \<and> execute_filter no_subject_frame ''AESEV'' ''MILD'' = Inl (KeyError ''USUBJID'')"
  by (simp add: numeric_frame_def no_subject_frame_def execute_filter_def getitem_def
      str_accessor_def boolean_index_def Let_def)

text \<open>
  C4, amended: when the column is not a column of the dataset the filter fails with
  \<open>KeyError\<close> for that column. When the column is present with object dtype and the
  dataset has the column USUBJID, the filter does not fail, and an empty match set is a
  result with count 0 and no subjects. The other failures are \<open>AttributeError\<close> for a
  present column of numeric dtype, and \<open>KeyError\<close> for USUBJID when the dataset lacks
  that column.
\<close>

theorem execute_filter_outcome:
  "(get_loc (columns df) c = None \<longrightarrow> execute_filter df c v = Inl (KeyError c))
   \<and> (get_loc (columns df) c = Some (i, NumericDtype) \<longrightarrow> execute_filter df c v = Inl AttributeError)
   \<and> (get_loc (columns df) c = Some (i, ObjectDtype) \<and> get_loc (columns df) ''USUBJID'' = None
        \<longrightarrow> execute_filter df c v = Inl (KeyError ''USUBJID''))
   \<and> (get_loc (columns df) c = Some (i, ObjectDtype) \<and> get_loc (columns df) ''USUBJID'' = Some (j, d)
        \<longrightarrow> (\<exists>count subject_ids matched.
              execute_filter df c v = Inr (count, subject_ids, matched)
              \<and> (rows matched = [] \<longrightarrow> count = 0 \<and> subject_ids = [])))"
  by (simp add: execute_filter_eq subject_cells_def)

theorem execute_filter_outcome_witness:
  "get_loc (columns adae_sample) ''AEBODSYS'' = None
   \<and> execute_filter adae_sample ''AEBODSYS'' ''CARDIAC DISORDERS'' = Inl (KeyError ''AEBODSYS'')
   \<and> get_loc (columns adae_sample) ''AESEQ'' = Some (2, NumericDtype)
   \<and> execute_filter adae_sample ''AESEQ'' ''1'' = Inl AttributeError
   \<and> get_loc (columns no_subject_frame) ''AESEV'' = Some (1, ObjectDtype)
   \<and> get_loc (columns no_subject_frame) ''USUBJID'' = None
   \<and> execute_filter no_subject_frame ''AESEV'' ''MILD'' = Inl (KeyError ''USUBJID'')
   \<and> get_loc (columns adae_sample) ''AESEV'' = Some (1, ObjectDtype)
   \<and> get_loc (columns adae_sample) ''USUBJID'' = Some (0, ObjectDtype)
   \<and> execute_filter adae_sample ''AESEV'' ''SEVERE'' = Inr (0, [], adae_sample\<lparr>rows := []\<rparr>)"
proof -
  have g: "get_loc (columns adae_sample) ''AEBODSYS'' = None"
    "get_loc (columns adae_sample) ''AESEQ'' = Some (2, NumericDtype)"
    "get_loc (columns no_subject_frame) ''AESEV'' = Some (1, ObjectDtype)"
    "get_loc (columns no_subject_frame) ''USUBJID'' = None"
    "get_loc (columns adae_sample) ''AESEV'' = Some (1, ObjectDtype)"
    "get_loc (columns adae_sample) ''USUBJID'' = Some (0, ObjectDtype)"
    by (simp_all add: adae_sample_def no_subject_frame_def)
  have e: "execute_filter adae_sample ''AESEV'' ''SEVERE'' = Inr (0, [], adae_sample\<lparr>rows := []\<rparr>)"
    by code_simp
  from g e
    execute_filter_outcome [where df = adae_sample and c = "''AEBODSYS''" and v = "''CARDIAC DISORDERS''"]
    execute_filter_outcome [where df = adae_sample and c = "''AESEQ''" and i = 2 and v = "''1''"]
    execute_filter_outcome [where df = no_subject_frame and c = "''AESEV''" and i = 1 and v = "''MILD''"]
    execute_filter_outcome [where df = adae_sample and c = "''AESEV''" and i = 1 and j = 0
      and d = ObjectDtype and v = "''SEVERE''"]
  show ?thesis by simp
qed

text \<open>The dtype that the loader gives a column.\<close>

lemma matches_iff: "matches v c \<longleftrightarrow> (\<exists>s. c = Str s \<and> upper s = upper v)"
  by (cases c) (simp_all add: matches_def)

lemma get_loc_infer_columns:
  "get_loc (infer_columns k names records) c = Some (i, dt)
     \<Longrightarrow> dt = infer_dtype (map (cell_at (k + i)) records)"
proof (induction names arbitrary: k i)
  case Nil
  then show ?case by simp
next
  case (Cons name names)
  show ?case
  proof (cases "name = c")
    case True
    with Cons.prems show ?thesis by simp
  next
    case False
    with Cons.prems obtain i' where i': "get_loc (infer_columns (Suc k) names records) c = Some (i', dt)"
      and i: "i = Suc i'"
      by (auto split: option.splits)
    from Cons.IH [OF i'] i show ?thesis by simp
  qed
qed

lemma get_loc_read_csv:
  "get_loc (columns (read_csv header records)) c = Some (i, dt)
     \<Longrightarrow> dt = infer_dtype (map (cell_at i) records)"
  using get_loc_infer_columns [of 0 header records c i dt] by (simp add: read_csv_def)

lemma infer_dtype_object:
  "list_ex (\<lambda>row. is_str (cell_at i row)) records \<Longrightarrow> infer_dtype (map (cell_at i) records) = ObjectDtype"
  by (auto simp: infer_dtype_def list_ex_iff)

lemma infer_dtype_numeric:
  "records \<noteq> [] \<Longrightarrow> list_all (\<lambda>row. cell_at i row = NaN) records
     \<Longrightarrow> infer_dtype (map (cell_at i) records) = NumericDtype"
  by (auto simp: infer_dtype_def list_ex_iff list_all_iff)

text \<open>
  C5, as stated, fails: in a loaded file whose column AESEV has missing cells only, the
  column is numeric and the filter fails with \<open>AttributeError\<close>; with a string in one of
  those cells the same filter returns a result. The missing cells make the query fail.
\<close>

theorem blank_column_makes_query_fail:
  "execute_filter (read_csv [''USUBJID'', ''AETERM'', ''AESEV''] blank_severity_records) ''AESEV'' ''MILD''
     = Inl AttributeError
   \<and> execute_filter (read_csv [''USUBJID'', ''AETERM'', ''AESEV''] one_severity_records) ''AESEV'' ''MILD''
     = Inr (1, [Str ''S2''],
            read_csv [''USUBJID'', ''AETERM'', ''AESEV''] one_severity_records
              \<lparr>rows := [[Str ''S2'', Str ''NAUSEA'', Str ''Mild'']]\<rparr>)"
  by code_simp

text \<open>
  C5, amended: a missing cell of the filtered column compares unequal to every value,
  so its entry in the comparison series is false, and a row whose cell in the filtered
  column is missing is never among the matched rows. On a loaded dataset whose filtered
  column holds at least one string and which has the column USUBJID, the filter does not
  fail, whatever cells of the column are missing, and the matched rows have no missing
  cell in the column. On a loaded dataset with records whose filtered column has missing
  cells only, the filter fails with \<open>AttributeError\<close>.
\<close>

theorem missing_cells_never_match:
  "(k < length cells \<and> cells ! k = NaN \<longrightarrow> \<not> eq_mask (str_upper cells) (upper v) ! k)
   \<and> (execute_filter df c v = Inr (count, subject_ids, matched)
        \<and> get_loc (columns df) c = Some (i, dt) \<and> cell_at i row = NaN
      \<longrightarrow> row \<notin> set (rows matched))
   \<and> (get_loc (columns (read_csv header records)) c = Some (i, dt)
        \<and> list_ex (\<lambda>row. is_str (cell_at i row)) records
        \<and> get_loc (columns (read_csv header records)) ''USUBJID'' = Some (j, d)
      \<longrightarrow> (\<exists>n ids.
            execute_filter (read_csv header records) c v
              = Inr (n, ids, read_csv header records
                       \<lparr>rows := filter (\<lambda>row. matches v (cell_at i row)) records\<rparr>)
            \<and> list_all (\<lambda>row. cell_at i row \<noteq> NaN)
                 (filter (\<lambda>row. matches v (cell_at i row)) records)))
   \<and> (get_loc (columns (read_csv header records)) c = Some (i, dt)
        \<and> records \<noteq> [] \<and> list_all (\<lambda>row. cell_at i row = NaN) records
      \<longrightarrow> execute_filter (read_csv header records) c v = Inl AttributeError)"
proof -
  have a: "\<not> eq_mask (str_upper cells) (upper v) ! k" if "k < length cells" "cells ! k = NaN"
    using that by (simp add: eq_mask_matches matches_def)
  have b: "row \<notin> set (rows matched)"
    if "execute_filter df c v = Inr (count, subject_ids, matched)"
       "get_loc (columns df) c = Some (i, dt)" "cell_at i row = NaN"
  proof -
    from that(1) have "rows matched = matching_rows df c v"
      by (auto simp: execute_filter_eq split: option.splits dtype.splits prod.splits)
    with that(2,3) show ?thesis by (simp add: matching_rows_def matches_def)
  qed
  have rows_rc: "rows (read_csv header records) = records" by (simp add: read_csv_def)
  have c: "\<exists>n ids.
            execute_filter (read_csv header records) c v
              = Inr (n, ids, read_csv header records
                       \<lparr>rows := filter (\<lambda>row. matches v (cell_at i row)) records\<rparr>)
            \<and> list_all (\<lambda>row. cell_at i row \<noteq> NaN)
                 (filter (\<lambda>row. matches v (cell_at i row)) records)"
    if g: "get_loc (columns (read_csv header records)) c = Some (i, dt)"
      and s: "list_ex (\<lambda>row. is_str (cell_at i row)) records"
      and u: "get_loc (columns (read_csv header records)) ''USUBJID'' = Some (j, d)"
  proof -
    from get_loc_read_csv [OF g] infer_dtype_object [OF s] have "dt = ObjectDtype" by simp
    with g u have "\<exists>n ids. execute_filter (read_csv header records) c v
              = Inr (n, ids, read_csv header records
                       \<lparr>rows := filter (\<lambda>row. matches v (cell_at i row)) records\<rparr>)"
      by (simp add: execute_filter_eq matching_rows_def rows_rc)
    moreover have "list_all (\<lambda>row. cell_at i row \<noteq> NaN)
                 (filter (\<lambda>row. matches v (cell_at i row)) records)"
      by (auto simp: list_all_iff matches_def)
    ultimately show ?thesis by blast
  qed
  have d: "execute_filter (read_csv header records) c v = Inl AttributeError"
    if g: "get_loc (columns (read_csv header records)) c = Some (i, dt)"
      and n: "records \<noteq> []" and e: "list_all (\<lambda>row. cell_at i row = NaN) records"
  proof -
    from get_loc_read_csv [OF g] infer_dtype_numeric [OF n e] have "dt = NumericDtype" by simp
    with g show ?thesis by (simp add: execute_filter_eq)
  qed
  from a b c d show ?thesis by blast
qed

theorem missing_cells_never_match_witness:
  "(1::nat) < length [Str ''Moderate'', NaN] \<and> [Str ''Moderate'', NaN] ! 1 = NaN
   \<and> \<not> eq_mask (str_upper [Str ''Moderate'', NaN]) (upper ''moderate'') ! 1
   \<and> get_loc (columns (read_csv [''USUBJID'', ''AETERM'', ''AESEV''] one_severity_records)) ''AESEV''
       = Some (2, ObjectDtype)
   \<and> get_loc (columns (read_csv [''USUBJID'', ''AETERM'', ''AESEV''] one_severity_records)) ''USUBJID''
       = Some (0, ObjectDtype)
   \<and> list_ex (\<lambda>row. is_str (cell_at 2 row)) one_severity_records
   \<and> cell_at 2 [Str ''S1'', Str ''ERYTHEMA'', NaN] = NaN
   \<and> [Str ''S1'', Str ''ERYTHEMA'', NaN] \<in> set one_severity_records
   \<and> execute_filter (read_csv [''USUBJID'', ''AETERM'', ''AESEV''] one_severity_records) ''AESEV'' ''MILD''
       = Inr (1, [Str ''S2''],
              read_csv [''USUBJID'', ''AETERM'', ''AESEV''] one_severity_records
                \<lparr>rows := [[Str ''S2'', Str ''NAUSEA'', Str ''Mild'']]\<rparr>)
   \<and> [Str ''S1'', Str ''ERYTHEMA'', NaN]
       \<notin> set (rows (read_csv [''USUBJID'', ''AETERM'', ''AESEV''] one_severity_records
                \<lparr>rows := [[Str ''S2'', Str ''NAUSEA'', Str ''Mild'']]\<rparr>))
   \<and> get_loc (columns (read_csv [''USUBJID'', ''AETERM'', ''AESEV''] blank_severity_records)) ''AESEV''
       = Some (2, NumericDtype)
   \<and> blank_severity_records \<noteq> []
   \<and> list_all (\<lambda>row. cell_at 2 row = NaN) blank_severity_records
   \<and> execute_filter (read_csv [''USUBJID'', ''AETERM'', ''AESEV''] blank_severity_records) ''AESEV'' ''MILD''
       = Inl AttributeError"
proof -
  have k: "(1::nat) < length [Str ''Moderate'', NaN] \<and> [Str ''Moderate'', NaN] ! 1 = NaN" by simp
  have g1: "get_loc (columns (read_csv [''USUBJID'', ''AETERM'', ''AESEV''] one_severity_records)) ''AESEV''
       = Some (2, ObjectDtype)" by code_simp
  have g2: "get_loc (columns (read_csv [''USUBJID'', ''AETERM'', ''AESEV''] one_severity_records)) ''USUBJID''
       = Some (0, ObjectDtype)" by code_simp
  have s: "list_ex (\<lambda>row. is_str (cell_at 2 row)) one_severity_records" by code_simp
  have n: "cell_at 2 [Str ''S1'', Str ''ERYTHEMA'', NaN] = NaN" by code_simp
  have r: "[Str ''S1'', Str ''ERYTHEMA'', NaN] \<in> set one_severity_records"
    by (simp add: one_severity_records_def)
  have e: "execute_filter (read_csv [''USUBJID'', ''AETERM'', ''AESEV''] one_severity_records) ''AESEV'' ''MILD''
       = Inr (1, [Str ''S2''],
              read_csv [''USUBJID'', ''AETERM'', ''AESEV''] one_severity_records
                \<lparr>rows := [[Str ''S2'', Str ''NAUSEA'', Str ''Mild'']]\<rparr>)" by code_simp
  have g3: "get_loc (columns (read_csv [''USUBJID'', ''AETERM'', ''AESEV''] blank_severity_records)) ''AESEV''
       = Some (2, NumericDtype)" by code_simp
  have ne: "blank_severity_records \<noteq> []" by (simp add: blank_severity_records_def)
  have al: "list_all (\<lambda>row. cell_at 2 row = NaN) blank_severity_records" by code_simp
  note t1 = missing_cells_never_match [where k = 1 and cells = "[Str ''Moderate'', NaN]"
      and v = "''moderate''"
      and df = "read_csv [''USUBJID'', ''AETERM'', ''AESEV''] one_severity_records"
      and c = "''AESEV''" and count = 1 and subject_ids = "[Str ''S2'']"
      and matched = "read_csv [''USUBJID'', ''AETERM'', ''AESEV''] one_severity_records
                \<lparr>rows := [[Str ''S2'', Str ''NAUSEA'', Str ''Mild'']]\<rparr>"
      and i = 2 and dt = ObjectDtype and row = "[Str ''S1'', Str ''ERYTHEMA'', NaN]"
      and header = "[''USUBJID'', ''AETERM'', ''AESEV'']" and records = one_severity_records
      and j = 0 and d = ObjectDtype]
  note t2 = missing_cells_never_match [where c = "''AESEV''" and i = 2 and dt = NumericDtype
      and header = "[''USUBJID'', ''AETERM'', ''AESEV'']" and records = blank_severity_records
      and v = "''MILD''"]
  from t1 k have c1: "\<not> eq_mask (str_upper [Str ''Moderate'', NaN]) (upper ''moderate'') ! 1"
    by blast
  from t2 g3 ne al have c4: "execute_filter (read_csv [''USUBJID'', ''AETERM'', ''AESEV'']
      blank_severity_records) ''AESEV'' ''MILD'' = Inl AttributeError"
    by blast
  have c2: "[Str ''S1'', Str ''ERYTHEMA'', NaN]
       \<notin> set (rows (read_csv [''USUBJID'', ''AETERM'', ''AESEV''] one_severity_records
                \<lparr>rows := [[Str ''S2'', Str ''NAUSEA'', Str ''Mild'']]\<rparr>))"
    by simp
  from k c1 g1 g2 s n r e c2 g3 ne al c4 show ?thesis by (intro conjI) simp_all
qed

text \<open>
  C7: the comparison series of the filter is the specification's predicate applied to
  each cell: a string cell matches iff its uppercasing equals the uppercasing of the
  value. The rows of every result of the filter are exactly the rows of the dataset whose
  cell in the column is a string with that property, in order, and the filter returns
  such a result whenever the column has object dtype and the dataset has USUBJID. Hence
  two filter values with the same uppercasing give the same result.
\<close>

theorem filter_case_insensitive:
  "eq_mask (str_upper cells) (upper v) = map (matches v) cells
   \<and> (matches v (Str s) \<longleftrightarrow> upper s = upper v)
   \<and> (upper va = upper vb \<longrightarrow> execute_filter df c va = execute_filter df c vb)
   \<and> (execute_filter df c v = Inr (count, subject_ids, matched)
        \<and> get_loc (columns df) c = Some (i, dt)
      \<longrightarrow> rows matched
            = filter (\<lambda>row. \<exists>s. cell_at i row = Str s \<and> upper s = upper v) (rows df))
   \<and> (get_loc (columns df) c = Some (i, ObjectDtype)
        \<and> get_loc (columns df) ''USUBJID'' = Some (j, d)
      \<longrightarrow> (\<exists>n ids. execute_filter df c v
             = Inr (n, ids,
                    df\<lparr>rows := filter (\<lambda>row. \<exists>s. cell_at i row = Str s \<and> upper s = upper v)
                                  (rows df)\<rparr>)))"
proof -
  have inv: "execute_filter df c va = execute_filter df c vb" if "upper va = upper vb"
  proof -
    have "matches va x = matches vb x" for x
      by (cases x) (simp_all add: matches_def that)
    then have "matches va = matches vb" by (rule ext)
    then have "matching_rows df c va = matching_rows df c vb"
      by (simp add: matching_rows_def split: option.splits)
    then show ?thesis by (simp only: execute_filter_eq)
  qed
  have sel: "rows matched
            = filter (\<lambda>row. \<exists>s. cell_at i row = Str s \<and> upper s = upper v) (rows df)"
    if "execute_filter df c v = Inr (count, subject_ids, matched)"
       "get_loc (columns df) c = Some (i, dt)"
  proof -
    from that(1) have "rows matched = matching_rows df c v"
      by (auto simp: execute_filter_eq split: option.splits dtype.splits prod.splits)
    with that(2) show ?thesis by (simp add: matching_rows_def matches_iff)
  qed
  have run: "\<exists>n ids. execute_filter df c v
             = Inr (n, ids,
                    df\<lparr>rows := filter (\<lambda>row. \<exists>s. cell_at i row = Str s \<and> upper s = upper v)
                                  (rows df)\<rparr>)"
    if "get_loc (columns df) c = Some (i, ObjectDtype)"
       "get_loc (columns df) ''USUBJID'' = Some (j, d)"
    using that by (simp add: execute_filter_eq matching_rows_def matches_iff)
  have m: "matches v (Str s) \<longleftrightarrow> upper s = upper v" by (simp add: matches_def)
  from eq_mask_matches [of cells v] m inv sel run show ?thesis by blast
qed

theorem filter_case_insensitive_witness:
  "upper ''MODERATE'' = upper ''moderate''
   \<and> matches ''moderate'' (Str ''Moderate'')
   \<and> get_loc (columns adae_sample) ''AESEV'' = Some (1, ObjectDtype)
   \<and> get_loc (columns adae_sample) ''USUBJID'' = Some (0, ObjectDtype)
   \<and> execute_filter adae_sample ''AESEV'' ''MODERATE''
      = execute_filter adae_sample ''AESEV'' ''moderate''
   \<and> execute_filter adae_sample ''AESEV'' ''MODERATE''
      = Inr (2, [Str ''S1'', Str ''S0''],
            adae_sample\<lparr>rows := [[Str ''S1'', Str ''Moderate'', Num 1],
                                 [Str ''S1'', Str ''MODERATE'', Num 3],
                                 [Str ''S0'', Str ''moderate'', NaN]]\<rparr>)
   \<and> filter (\<lambda>row. \<exists>s. cell_at 1 row = Str s \<and> upper s = upper ''MODERATE'') (rows adae_sample)
      = [[Str ''S1'', Str ''Moderate'', Num 1],
         [Str ''S1'', Str ''MODERATE'', Num 3],
         [Str ''S0'', Str ''moderate'', NaN]]"
proof -
  have u: "upper ''MODERATE'' = upper ''moderate''" by code_simp
  have m: "upper ''Moderate'' = upper ''moderate''" by code_simp
  have g: "get_loc (columns adae_sample) ''AESEV'' = Some (1, ObjectDtype)"
    "get_loc (columns adae_sample) ''USUBJID'' = Some (0, ObjectDtype)"
    by (simp_all add: adae_sample_def)
  have e: "execute_filter adae_sample ''AESEV'' ''MODERATE''
      = Inr (2, [Str ''S1'', Str ''S0''],
            adae_sample\<lparr>rows := [[Str ''S1'', Str ''Moderate'', Num 1],
                                 [Str ''S1'', Str ''MODERATE'', Num 3],
                                 [Str ''S0'', Str ''moderate'', NaN]]\<rparr>)"
    by code_simp
  note t = filter_case_insensitive [where v = "''MODERATE''" and s = "''Moderate''"
      and va = "''MODERATE''" and vb = "''moderate''" and df = adae_sample and c = "''AESEV''"
      and count = 2 and subject_ids = "[Str ''S1'', Str ''S0'']"
      and matched = "adae_sample\<lparr>rows := [[Str ''S1'', Str ''Moderate'', Num 1],
                                 [Str ''S1'', Str ''MODERATE'', Num 3],
                                 [Str ''S0'', Str ''moderate'', NaN]]\<rparr>"
      and i = 1 and dt = ObjectDtype and j = 0 and d = ObjectDtype]
  from t u have eq: "execute_filter adae_sample ''AESEV'' ''MODERATE''
      = execute_filter adae_sample ''AESEV'' ''moderate''" by blast
  from t e g(1) have "rows (adae_sample\<lparr>rows := [[Str ''S1'', Str ''Moderate'', Num 1],
                                 [Str ''S1'', Str ''MODERATE'', Num 3],
                                 [Str ''S0'', Str ''moderate'', NaN]]\<rparr>)
     = filter (\<lambda>row. \<exists>s. cell_at 1 row = Str s \<and> upper s = upper ''MODERATE'') (rows adae_sample)"
    by blast
  then have f: "filter (\<lambda>row. \<exists>s. cell_at 1 row = Str s \<and> upper s = upper ''MODERATE'') (rows adae_sample)
      = [[Str ''S1'', Str ''Moderate'', Num 1],
         [Str ''S1'', Str ''MODERATE'', Num 3],
         [Str ''S0'', Str ''moderate'', NaN]]" by simp
  have "matches ''moderate'' (Str ''Moderate'')" using m by (simp add: matches_def)
  with u g eq e f show ?thesis by (intro conjI)
qed


section \<open>Properties of the classification step\<close>

text \<open>
  With the mock switched on, when the import fails, and when the remote call or the
  parsing of its response raises, the result is the output of the rule-based resolver.
\<close>

lemma call_llm_fallback:
  "call_llm True remote question = as_dict (mock_llm_response question)"
  "call_llm False ImportFailed question = as_dict (mock_llm_response question)"
  "call_llm False (Raised e) question = as_dict (mock_llm_response question)"
  by (simp_all add: call_llm_def)

lemma subscript_as_dict:
  "subscript (as_dict r) ''target_column'' = Inr (PyStr (target_column r))"
  "subscript (as_dict r) ''filter_value'' = Inr (PyStr (filter_value r))"
  by (simp_all add: as_dict_def)

lemma query_fallback:
  "query True remote df question
     = execute_filter df (target_column (mock_llm_response question))
         (filter_value (mock_llm_response question))"
  "query False ImportFailed df question
     = execute_filter df (target_column (mock_llm_response question))
         (filter_value (mock_llm_response question))"
  "query False (Raised e) df question
     = execute_filter df (target_column (mock_llm_response question))
         (filter_value (mock_llm_response question))"
  by (simp_all add: query_def call_llm_fallback subscript_as_dict)

text \<open>
  C8 at a response that is JSON but not of the expected shape: \<open>_call_llm\<close> returns the
  response as it is, not the output of the rule-based resolver, and \<open>query\<close> then
  fails with \<open>KeyError\<close> when it reads \<open>target_column\<close>.
\<close>

theorem call_llm_returns_unvalidated_response:
  "call_llm False (Loaded wrong_shape) question = wrong_shape
   \<and> call_llm False (Loaded wrong_shape) question \<noteq> as_dict (mock_llm_response question)
   \<and> subscript (call_llm False (Loaded wrong_shape) question) ''target_column''
       = Inl (KeyError ''target_column'')
   \<and> query False (Loaded wrong_shape) df question = Inl (KeyError ''target_column'')"
  by (simp add: call_llm_def wrong_shape_def as_dict_def query_def)

end
